theory Spec2Isabelle
  imports Complex_Main "HOL-Library.AList" "HOL-Library.Log_Nat"
begin

section \<open>Python values used by the webhook tester\<close>

text \<open>
  The program is \<^verbatim>\<open>webhook_tester.py\<close>: a Tk form (class \<^verbatim>\<open>WebhookApp\<close>) whose
  variables are read by \<^verbatim>\<open>validate_input\<close> and \<^verbatim>\<open>send_webhook\<close>.  Strings are
  modelled as lists of ASCII characters; the treatment that \<^verbatim>\<open>float\<close> and \<^verbatim>\<open>int\<close>
  give to non-ASCII digits and spaces is outside the model.
\<close>

subsection \<open>Characters and digit strings\<close>

text \<open>\<^verbatim>\<open>Py_ISSPACE\<close> on ASCII: tab, newline, vertical tab, form feed, carriage return, space.\<close>

definition is_space :: "char \<Rightarrow> bool" where
  "is_space c = (c \<in> set [CHR 0x09, CHR 0x0A, CHR 0x0B, CHR 0x0C, CHR 0x0D, CHR 0x20])"

definition is_digit :: "char \<Rightarrow> bool" where
  "is_digit c = (c \<in> set ''0123456789'')"

definition digit_val :: "char \<Rightarrow> nat" where
  "digit_val c = length (takeWhile (\<lambda>d. d \<noteq> c) ''0123456789'')"

definition digits_value :: "string \<Rightarrow> nat" where
  "digits_value ds = foldl (\<lambda>n c. 10 * n + digit_val c) 0 ds"

definition lower :: "char \<Rightarrow> char" where
  "lower c = (case map_of (zip ''ABCDEFGHIJKLMNOPQRSTUVWXYZ'' ''abcdefghijklmnopqrstuvwxyz'') c of
                None \<Rightarrow> c | Some d \<Rightarrow> d)"

definition strip :: "string \<Rightarrow> string" where
  "strip s = rev (dropWhile is_space (rev (dropWhile is_space s)))"

text \<open>An optional sign: the flag says whether it was a minus.\<close>

definition parse_sign :: "string \<Rightarrow> bool \<times> string" where
  "parse_sign s = (case s of
       [] \<Rightarrow> (False, [])
     | c # cs \<Rightarrow> if c = CHR ''-'' then (True, cs)
                else if c = CHR ''+'' then (False, cs) else (False, s))"

subsection \<open>Floating-point values\<close>

text \<open>
  A Python \<^verbatim>\<open>float\<close> is an IEEE binary64 value.  The finite ones are carried as the
  rational number they denote (the two zeros are not distinguished: only comparisons are
  made on the value, and they do not distinguish them either).
\<close>

datatype pyfloat = Finite rat | PosInf | NegInf | NaN

fun float_less :: "pyfloat \<Rightarrow> pyfloat \<Rightarrow> bool" where
  "float_less NaN y = False"
| "float_less x NaN = False"
| "float_less (Finite a) (Finite b) = (a < b)"
| "float_less NegInf NegInf = False"
| "float_less NegInf y = True"
| "float_less x NegInf = False"
| "float_less PosInf y = False"
| "float_less x PosInf = True"

definition float_le :: "pyfloat \<Rightarrow> pyfloat \<Rightarrow> bool" where
  "float_le x y = (float_less x y \<or> (x = y \<and> x \<noteq> NaN))"

definition pow2 :: "int \<Rightarrow> rat" where
  "pow2 k = (if 0 \<le> k then 2 ^ nat k else 1 / 2 ^ nat (- k))"

definition pow10 :: "int \<Rightarrow> rat" where
  "pow10 k = (if 0 \<le> k then 10 ^ nat k else 1 / 10 ^ nat (- k))"

text \<open>The exponent of the binade of a positive rational: \<open>2 ^ e \<le> a < 2 ^ (e + 1)\<close>.\<close>

definition floor_log2 :: "rat \<Rightarrow> int" where
  "floor_log2 a = (if 1 \<le> a then bitlen \<lfloor>a\<rfloor> - 1 else - bitlen (\<lceil>1 / a\<rceil> - 1))"

definition round_half_even :: "rat \<Rightarrow> int" where
  "round_half_even x = (let f = \<lfloor>x\<rfloor>; r = x - of_int f
     in if r < 1 / 2 then f else if 1 / 2 < r then f + 1 else if even f then f else f + 1)"

text \<open>
  Rounding of an exact value to binary64, to nearest with ties to even: 53 bits of
  precision, smallest exponent \<open>- 1022\<close> (below it the spacing stays \<open>2 ^ - 1074\<close>),
  overflow to infinity from \<open>2 ^ 1024\<close>.
\<close>

definition binary64 :: "rat \<Rightarrow> pyfloat" where
  "binary64 q = (if q = 0 then Finite 0 else
     let a = \<bar>q\<bar>;
         e = max (floor_log2 a) (- 1022);
         u = pow2 (e - 52);
         r = of_int (round_half_even (a / u)) * u
     in if pow2 1024 \<le> r then (if q < 0 then NegInf else PosInf)
        else Finite (if q < 0 then - r else r))"

subsection \<open>\<^verbatim>\<open>float(str)\<close>\<close>

text \<open>
  Underscores are accepted between two digits only and are removed before the number is
  read; \<open>prev\<close> is the character before the current one (NUL at the start).
\<close>

fun drop_underscores :: "char \<Rightarrow> string \<Rightarrow> string option" where
  "drop_underscores prev [] = (if prev = CHR ''_'' then None else Some [])"
| "drop_underscores prev (c # cs) =
     (if c = CHR ''_'' then (if is_digit prev then drop_underscores c cs else None)
      else if prev = CHR ''_'' \<and> \<not> is_digit c then None
      else map_option ((#) c) (drop_underscores c cs))"

text \<open>
  An unsigned decimal literal, read to the end of the text: digits, an optional point and
  digits (one digit at least in all), an optional exponent with at least one digit.  The
  result is the exact value written.
\<close>

definition parse_decimal :: "string \<Rightarrow> rat option" where
  "parse_decimal s =
     (let ip = takeWhile is_digit s; r1 = dropWhile is_digit s;
          has_point = (r1 \<noteq> [] \<and> hd r1 = CHR ''.'');
          fp = (if has_point then takeWhile is_digit (tl r1) else []);
          r2 = (if has_point then dropWhile is_digit (tl r1) else r1);
          m = digits_value (ip @ fp)
      in if ip = [] \<and> fp = [] then None
         else if r2 = [] then Some (of_nat m * pow10 (- int (length fp)))
         else if hd r2 = CHR ''e'' \<or> hd r2 = CHR ''E'' then
           (let (neg, r3) = parse_sign (tl r2);
                ep = takeWhile is_digit r3; r4 = dropWhile is_digit r3;
                x = int (digits_value ep)
            in if ep = [] \<or> r4 \<noteq> [] then None
               else Some (of_nat m * pow10 ((if neg then - x else x) - int (length fp))))
         else None)"

definition parse_inf_or_nan :: "bool \<Rightarrow> string \<Rightarrow> pyfloat option" where
  "parse_inf_or_nan neg s =
     (let t = map lower s
      in if t = ''inf'' \<or> t = ''infinity'' then Some (if neg then NegInf else PosInf)
         else if t = ''nan'' then Some NaN
         else None)"

text \<open>\<^verbatim>\<open>float(s)\<close>: \<open>None\<close> is the \<^verbatim>\<open>ValueError\<close>.\<close>

definition py_float :: "string \<Rightarrow> pyfloat option" where
  "py_float s =
     (case drop_underscores (CHR 0x00) s of
        None \<Rightarrow> None
      | Some t \<Rightarrow>
          (let b = strip t in
           if b = [] then None
           else (let (neg, body) = parse_sign b in
                 case parse_decimal body of
                   Some q \<Rightarrow> Some (binary64 (if neg then - q else q))
                 | None \<Rightarrow> parse_inf_or_nan neg body)))"

subsection \<open>\<^verbatim>\<open>int(str)\<close>\<close>

fun adjacent_underscores :: "string \<Rightarrow> bool" where
  "adjacent_underscores (a # b # cs) =
     ((a = CHR ''_'' \<and> b = CHR ''_'') \<or> adjacent_underscores (b # cs))"
| "adjacent_underscores cs = False"

text \<open>The default limit of the interpreter on the digits of a decimal integer text.\<close>

definition max_str_digits :: nat where
  "max_str_digits = 4300"

text \<open>
  \<^verbatim>\<open>int(s)\<close> in base 10: spaces, an optional sign, digits with single underscores between
  them, spaces; \<open>None\<close> is the \<^verbatim>\<open>ValueError\<close>.
\<close>

definition py_int :: "string \<Rightarrow> int option" where
  "py_int s =
     (let (neg, r) = parse_sign (dropWhile is_space s);
          run = takeWhile (\<lambda>c. is_digit c \<or> c = CHR ''_'') r;
          rest = dropWhile (\<lambda>c. is_digit c \<or> c = CHR ''_'') r;
          ds = filter is_digit run
      in if run = [] \<or> hd run = CHR ''_'' \<or> last run = CHR ''_'' \<or> adjacent_underscores run
            \<or> dropWhile is_space rest \<noteq> [] \<or> max_str_digits < length ds
         then None
         else Some (if neg then - int (digits_value ds) else int (digits_value ds)))"

section \<open>The form: \<^verbatim>\<open>WebhookApp\<close>\<close>

subsection \<open>State\<close>

text \<open>
  The Tk variables of \<^verbatim>\<open>self.variables\<close> and the state of the widgets that the handlers
  configure: the values offered by the trading-pair dropdown, and the \<^verbatim>\<open>state\<close> option
  of the side, quantity, margin-mode and leverage widgets.
\<close>

datatype widget_state = Readonly | Disabled | Normal

record app =
  exchange_var :: string
  type_var :: string
  symbol_var :: string
  side_var :: string
  qty_var :: string
  margin_mode_var :: string
  leverage_var :: string
  close_position_var :: bool
  symbol_values :: "string list"
  side_dropdown_state :: widget_state
  qty_entry_state :: widget_state
  margin_mode_dropdown_state :: widget_state
  leverage_dropdown_state :: widget_state

definition AUTH_TOKEN :: string where
  "AUTH_TOKEN = ''z8V%kewzQ%m%XKdMJGdWtbX8!V8ZKqHz''"

definition trading_pairs :: "string \<Rightarrow> string list option" where
  "trading_pairs = map_of
     [(''spot'', [''BTC-USDT'', ''ETH-USDT'']),
      (''perps'', [''BTC-USDT-SWAP'', ''ETH-USDT-SWAP'', ''BTC-USD-SWAP'', ''ETH-USD-SWAP'']),
      (''invperps'', [''BTC-USD-SWAP'', ''ETH-USD-SWAP''])]"

definition qty_presets :: "string list" where
  "qty_presets = [''100%'', ''75%'', ''50%'', ''25%'', ''10%'', ''5%'']"

definition exchange_values :: "string list" where
  "exchange_values = [''okx'', ''binance'']"

definition type_values :: "string list" where
  "type_values = [''spot'', ''perps'', ''invperps'']"

definition side_values :: "string list" where
  "side_values = [''buy'', ''sell'']"

definition margin_mode_values :: "string list" where
  "margin_mode_values = [''cross'', ''isolated'']"

definition leverage_values :: "string list" where
  "leverage_values = [''1'', ''2'', ''3'', ''5'', ''10'', ''20'', ''50'', ''75'', ''100'', ''125'']"

text \<open>
  The state after \<^verbatim>\<open>__init__\<close> (which ends with \<^verbatim>\<open>build_form\<close>): the variables with
  their initial values, the trading-pair dropdown created without values, the entry in its
  default state and the dropdowns read-only.
\<close>

definition init :: app where
  "init = \<lparr> exchange_var = ''okx'', type_var = ''spot'', symbol_var = [], side_var = [],
            qty_var = [], margin_mode_var = ''cross'', leverage_var = ''10'',
            close_position_var = False, symbol_values = [],
            side_dropdown_state = Readonly, qty_entry_state = Normal,
            margin_mode_dropdown_state = Readonly, leverage_dropdown_state = Readonly \<rparr>"

subsection \<open>Handlers\<close>

definition on_type_change :: "app \<Rightarrow> app" where
  "on_type_change s =
     (let trade_type = type_var s;
          symbol_pairs = (case trading_pairs trade_type of None \<Rightarrow> [] | Some ps \<Rightarrow> ps);
          s1 = s\<lparr>symbol_values := symbol_pairs\<rparr>;
          s2 = (if symbol_pairs \<noteq> [] then s1\<lparr>symbol_var := hd symbol_pairs\<rparr> else s1)
      in if trade_type = ''spot''
         then s2\<lparr>margin_mode_var := ''cash'', leverage_var := ''1'',
                 margin_mode_dropdown_state := Disabled, leverage_dropdown_state := Disabled\<rparr>
         else s2\<lparr>margin_mode_dropdown_state := Readonly, leverage_dropdown_state := Readonly,
                 margin_mode_var := ''cross'', leverage_var := ''10''\<rparr>)"

definition on_close_position_toggle :: "app \<Rightarrow> app" where
  "on_close_position_toggle s =
     (let is_closing = close_position_var s;
          state = (if is_closing then Disabled else Readonly)
      in s\<lparr>side_dropdown_state := state,
            qty_entry_state := (if is_closing then Disabled else Normal)\<rparr>)"

definition clear_form :: "app \<Rightarrow> app" where
  "clear_form s =
     on_type_change
       (s\<lparr>exchange_var := [], type_var := [], symbol_var := [], side_var := [], qty_var := [],
          margin_mode_var := [], leverage_var := [], close_position_var := False\<rparr>)"

subsection \<open>Validation\<close>

text \<open>
  The quantity check of \<^verbatim>\<open>validate_input\<close> (the two \<^verbatim>\<open>try\<close> blocks): the message of
  the \<^verbatim>\<open>return False, ...\<close> taken, or \<open>None\<close> when control falls through.
\<close>

definition check_qty :: "string \<Rightarrow> string option" where
  "check_qty qty =
     (if qty \<noteq> [] \<and> last qty = CHR ''%'' then
        (case py_float (butlast qty) of
           None \<Rightarrow> Some ''Invalid percentage format''
         | Some pct \<Rightarrow>
             if \<not> (float_less (Finite 0) pct \<and> float_le pct (Finite 100))
             then Some ''Percentage must be between 0 and 100'' else None)
      else
        (case py_float qty of
           None \<Rightarrow> Some ''Invalid quantity format''
         | Some amt \<Rightarrow>
             if float_le amt (Finite 0) then Some ''Quantity must be greater than 0'' else None))"

definition validate_input :: "app \<Rightarrow> bool \<times> string" where
  "validate_input s =
     (if exchange_var s = [] then (False, ''Please select an exchange'')
      else if type_var s = [] then (False, ''Please select a trade type'')
      else if symbol_var s = [] then (False, ''Please select a trading pair'')
      else if \<not> close_position_var s then
        (if side_var s = [] then (False, ''Please select a side'')
         else if qty_var s = [] then (False, ''Please enter a quantity'')
         else (case check_qty (qty_var s) of
                 Some msg \<Rightarrow> (False, msg)
               | None \<Rightarrow> (True, [])))
      else (True, []))"

subsection \<open>Payload construction and submission\<close>

datatype json = JStr string | JInt int | JBool bool

text \<open>A Python dict keeps its keys in insertion order: an association list.\<close>

type_synonym payload = "(string \<times> json) list"

datatype py_error = ValueError

text \<open>
  The payload built by \<^verbatim>\<open>send_webhook\<close> between the validation and the request;
  \<^verbatim>\<open>int(...)\<close> on the leverage text may raise.
\<close>

definition construct_payload :: "app \<Rightarrow> py_error + payload" where
  "construct_payload s =
     (let payload = [(''authToken'', JStr AUTH_TOKEN),
                     (''exchange'', JStr (exchange_var s)),
                     (''symbol'', JStr (symbol_var s)),
                     (''type'', JStr (type_var s)),
                     (''marginMode'', JStr (margin_mode_var s))];
          with_leverage =
            (if type_var s \<noteq> ''spot'' then
               (case py_int (leverage_var s) of
                  None \<Rightarrow> Inl ValueError
                | Some n \<Rightarrow> Inr (AList.update ''leverage'' (JInt n) payload))
             else Inr payload)
      in case with_leverage of
           Inl e \<Rightarrow> Inl e
         | Inr p \<Rightarrow>
             Inr (if \<not> close_position_var s
                  then AList.update ''qty'' (JStr (qty_var s))
                         (AList.update ''side'' (JStr (side_var s)) p)
                  else AList.update ''closePosition'' (JBool True) p))"

text \<open>
  The outcome of \<^verbatim>\<open>send_webhook\<close> up to the request: the validation message shown, the
  exception raised while the payload is built, or the document handed to
  \<^verbatim>\<open>requests.post\<close>.
\<close>

datatype submission = ValidationError string | Raised py_error | Posted payload

definition send_webhook :: "app \<Rightarrow> submission" where
  "send_webhook s =
     (case validate_input s of
        (False, error_msg) \<Rightarrow> ValidationError error_msg
      | (True, error_msg) \<Rightarrow>
          (case construct_payload s of Inl e \<Rightarrow> Raised e | Inr p \<Rightarrow> Posted p))"

subsection \<open>User actions\<close>

text \<open>
  What the widgets of \<^verbatim>\<open>build_form\<close> let the user do.  A read-only dropdown offers its
  values, a disabled widget nothing; the entry takes any text while it is not disabled.
  The trade-type dropdown and the check box run their handler after the variable has
  changed; the preset dropdown writes the quantity variable whatever the state of the entry.
\<close>

datatype action =
    SelectExchange string
  | SelectType string
  | SelectSymbol string
  | SelectSide string
  | TypeQty string
  | SelectQtyPreset string
  | SelectMarginMode string
  | SelectLeverage string
  | ToggleClosePosition
  | ClickClearForm
  | ClickSendWebhook

fun possible :: "app \<Rightarrow> action \<Rightarrow> bool" where
  "possible s (SelectExchange e) = (e \<in> set exchange_values)"
| "possible s (SelectType t) = (t \<in> set type_values)"
| "possible s (SelectSymbol y) = (y \<in> set (symbol_values s))"
| "possible s (SelectSide d) = (side_dropdown_state s = Readonly \<and> d \<in> set side_values)"
| "possible s (TypeQty q) = (qty_entry_state s = Normal)"
| "possible s (SelectQtyPreset q) = (q \<in> set qty_presets)"
| "possible s (SelectMarginMode m) =
     (margin_mode_dropdown_state s = Readonly \<and> m \<in> set margin_mode_values)"
| "possible s (SelectLeverage l) =
     (leverage_dropdown_state s = Readonly \<and> l \<in> set leverage_values)"
| "possible s ToggleClosePosition = True"
| "possible s ClickClearForm = True"
| "possible s ClickSendWebhook = True"

fun perform :: "app \<Rightarrow> action \<Rightarrow> app" where
  "perform s (SelectExchange e) = s\<lparr>exchange_var := e\<rparr>"
| "perform s (SelectType t) = on_type_change (s\<lparr>type_var := t\<rparr>)"
| "perform s (SelectSymbol y) = s\<lparr>symbol_var := y\<rparr>"
| "perform s (SelectSide d) = s\<lparr>side_var := d\<rparr>"
| "perform s (TypeQty q) = s\<lparr>qty_var := q\<rparr>"
| "perform s (SelectQtyPreset q) = s\<lparr>qty_var := q\<rparr>"
| "perform s (SelectMarginMode m) = s\<lparr>margin_mode_var := m\<rparr>"
| "perform s (SelectLeverage l) = s\<lparr>leverage_var := l\<rparr>"
| "perform s ToggleClosePosition =
     on_close_position_toggle (s\<lparr>close_position_var := \<not> close_position_var s\<rparr>)"
| "perform s ClickClearForm = clear_form s"
| "perform s ClickSendWebhook = s"

inductive reachable :: "app \<Rightarrow> bool" where
  reachable_init: "reachable init"
| reachable_step: "reachable s \<Longrightarrow> possible s a \<Longrightarrow> reachable (perform s a)"

subsection \<open>The margin settings of a spot trade\<close>

text \<open>What \<^verbatim>\<open>on_type_change\<close> sets up for the trade type \<^verbatim>\<open>spot\<close>.\<close>

definition spot_locked :: "app \<Rightarrow> bool" where
  "spot_locked s =
     (type_var s = ''spot'' \<longrightarrow>
        margin_mode_var s = ''cash'' \<and> leverage_var s = ''1'' \<and>
        margin_mode_dropdown_state s = Disabled \<and> leverage_dropdown_state s = Disabled)"

subsection \<open>States used below\<close>

text \<open>
  Three states reached from the initial one by user actions, and variants of the first:
  a spot order (buy, 50%), a close-position request on perpetuals, and perpetuals with the
  last of their trading pairs selected.
\<close>

definition spot_order :: app where
  "spot_order =
     perform (perform (perform init (SelectType ''spot'')) (SelectSide ''buy''))
       (SelectQtyPreset ''50%'')"

definition perps_close :: app where
  "perps_close = perform (perform init (SelectType ''perps'')) ToggleClosePosition"

definition perps_eth_usd :: app where
  "perps_eth_usd = perform (perform init (SelectType ''perps'')) (SelectSymbol ''ETH-USD-SWAP'')"

definition doge_order :: app where
  "doge_order = spot_order\<lparr>symbol_var := ''DOGE-USDT''\<rparr>"

definition nan_order :: app where
  "nan_order = perform spot_order (TypeQty ''nan'')"

definition inf_order :: app where
  "inf_order = perform spot_order (TypeQty ''inf'')"

section \<open>Supporting lemmas\<close>

subsection \<open>The binade of a rational\<close>

text \<open>\<open>floor_log2\<close> is the exponent that \<open>binary64\<close> needs: the power of two at or below the value.\<close>

lemma rat_le_of_int_pow2: "(n::int) \<le> 2 ^ k \<Longrightarrow> (of_int n :: rat) \<le> 2 ^ k"
proof -
  assume "n \<le> 2 ^ k"
  then have "(of_int n :: rat) \<le> of_int (2 ^ k)" by (simp only: of_int_le_iff)
  then show ?thesis by simp
qed

lemma rat_pow2_le_of_int: "2 ^ k \<le> (n::int) \<Longrightarrow> (2::rat) ^ k \<le> of_int n"
proof -
  assume "2 ^ k \<le> n"
  then have "(of_int (2 ^ k) :: rat) \<le> of_int n" by (simp only: of_int_le_iff)
  then show ?thesis by simp
qed

lemma floor_log2_bounds:
  assumes "0 < a"
  shows "pow2 (floor_log2 a) \<le> a \<and> a < pow2 (floor_log2 a + 1)"
proof (cases "1 \<le> a")
  case True
  define n where "n = \<lfloor>a\<rfloor>"
  define b where "b = bitlen n"
  have n: "1 \<le> n" using True by (simp add: n_def)
  then have bb: "2 ^ nat (b - 1) \<le> n \<and> n < 2 ^ nat b"
    unfolding b_def using bitlen_bounds [of n] by simp
  have b1: "1 \<le> b"
    using n bitlen_eq_zero_iff [of n] bitlen_nonneg [of n] by (simp add: b_def)
  have fl: "floor_log2 a = b - 1"
    using True by (simp add: floor_log2_def n_def b_def)
  have t1: "(2::rat) ^ nat (b - 1) \<le> of_int n"
    using bb by (simp add: rat_pow2_le_of_int)
  have t2: "of_int n \<le> a" by (simp add: n_def)
  have t3: "a < of_int n + 1" using floor_correct [of a] by (simp add: n_def)
  have t4: "of_int n + 1 \<le> (2::rat) ^ nat b"
    using rat_le_of_int_pow2 [of "n + 1" "nat b"] bb by simp
  have lo: "(2::rat) ^ nat (b - 1) \<le> a" using t1 t2 by linarith
  have hi: "a < (2::rat) ^ nat b" using t3 t4 by linarith
  have "0 \<le> b - 1" and "0 \<le> b - 1 + 1" and "nat (b - 1 + 1) = nat b"
    using b1 by simp_all
  then show ?thesis
    using lo hi by (simp add: fl pow2_def)
next
  case False
  define m where "m = \<lceil>1 / a\<rceil>"
  define c where "c = bitlen (m - 1)"
  have ia: "1 < 1 / a" using False assms by simp
  then have m: "2 \<le> m" unfolding m_def by linarith
  then have cc: "2 ^ nat (c - 1) \<le> m - 1 \<and> m - 1 < 2 ^ nat c"
    unfolding c_def using bitlen_bounds [of "m - 1"] by simp
  have c1: "1 \<le> c"
    using m bitlen_eq_zero_iff [of "m - 1"] bitlen_nonneg [of "m - 1"] by (simp add: c_def)
  have fl: "floor_log2 a = - c"
    using False by (simp add: floor_log2_def m_def c_def)
  have u1: "1 / a \<le> of_int m" using ceiling_correct [of "1 / a"] by (simp add: m_def)
  have u2: "of_int m - 1 < 1 / a" using ceiling_correct [of "1 / a"] by (simp add: m_def)
  have u3: "of_int m \<le> (2::rat) ^ nat c"
    using rat_le_of_int_pow2 [of m "nat c"] cc by simp
  have u4: "(2::rat) ^ nat (c - 1) \<le> of_int m - 1"
    using rat_pow2_le_of_int [of "nat (c - 1)" "m - 1"] cc by simp
  have "1 / a \<le> 2 ^ nat c" using u1 u3 by linarith
  then have "1 \<le> 2 ^ nat c * a" using assms by (simp add: pos_divide_le_eq)
  then have l: "1 / 2 ^ nat c \<le> a" by (simp add: pos_divide_le_eq mult.commute)
  have "2 ^ nat (c - 1) < 1 / a" using u2 u4 by linarith
  then have "2 ^ nat (c - 1) * a < 1" using assms by (simp add: pos_less_divide_eq)
  then have r: "a < 1 / 2 ^ nat (c - 1)" by (simp add: pos_less_divide_eq mult.commute)
  have "nat (- (- c + 1)) = nat (c - 1)" and "\<not> 0 \<le> - c"
    using c1 by simp_all
  then show ?thesis
    using l r c1 False by (auto simp: fl pow2_def)
qed

subsection \<open>Evaluation of the parsers\<close>

lemma floor_rat_numeral: "\<lfloor>numeral a / numeral b :: rat\<rfloor> = numeral a div numeral b"
  by (metis floor_divide_of_int_eq of_int_numeral)

lemma ceiling_rat_numeral: "\<lceil>numeral a / numeral b :: rat\<rceil> = - (- numeral a div numeral b)"
  by (metis ceiling_divide_eq_div of_int_numeral)

lemma bitlen_numeral: "bitlen (numeral n) = bitlen (numeral n div 2) + 1"
  by (subst compute_bitlen) simp

lemma bitlen_one: "bitlen 1 = 1"
  by (subst compute_bitlen) simp

lemmas text_defs = py_float_def is_digit_def is_space_def strip_def parse_sign_def
  parse_decimal_def parse_inf_or_nan_def lower_def digits_value_def digit_val_def pow10_def

lemmas binary64_defs = binary64_def floor_log2_def round_half_even_def pow2_def Let_def
  floor_rat_numeral ceiling_rat_numeral bitlen_numeral bitlen_one

lemma py_float_nan: "py_float ''nan'' = Some NaN"
  by (simp add: text_defs)

lemma py_float_inf: "py_float ''inf'' = Some PosInf"
  by (simp add: text_defs)

lemma py_float_50: "py_float ''50'' = Some (Finite 50)"
  by (simp add: text_defs binary64_defs)

lemma py_float_150: "py_float ''150'' = Some (Finite 150)"
  by (simp add: text_defs binary64_defs)

lemma py_float_1_5: "py_float ''1.5'' = Some (Finite (3 / 2))"
  by (simp add: text_defs binary64_defs)

lemma py_float_minus_1: "py_float ''-1'' = Some (Finite (- 1))"
  by (simp add: text_defs binary64_defs)

lemma py_float_abc: "py_float ''abc'' = None"
  by (simp add: text_defs)

lemma py_float_100_eps: "py_float ''100.00000000000000001'' = Some (Finite 100)"
  by (simp add: text_defs binary64_defs)

lemma py_int_leverage_values:
  "map py_int leverage_values = map Some [1, 2, 3, 5, 10, 20, 50, 75, 100, 125]"
  by (simp add: leverage_values_def py_int_def text_defs max_str_digits_def)

lemma py_int_10: "py_int ''10'' = Some 10"
  by (simp add: py_int_def text_defs max_str_digits_def)

subsection \<open>The example states\<close>

lemma spot_order_eq:
  "spot_order = \<lparr> exchange_var = ''okx'', type_var = ''spot'', symbol_var = ''BTC-USDT'',
      side_var = ''buy'', qty_var = ''50%'', margin_mode_var = ''cash'', leverage_var = ''1'',
      close_position_var = False, symbol_values = [''BTC-USDT'', ''ETH-USDT''],
      side_dropdown_state = Readonly, qty_entry_state = Normal,
      margin_mode_dropdown_state = Disabled, leverage_dropdown_state = Disabled \<rparr>"
  by (simp add: spot_order_def init_def on_type_change_def trading_pairs_def)

lemma perps_close_eq:
  "perps_close = \<lparr> exchange_var = ''okx'', type_var = ''perps'', symbol_var = ''BTC-USDT-SWAP'',
      side_var = [], qty_var = [], margin_mode_var = ''cross'', leverage_var = ''10'',
      close_position_var = True,
      symbol_values = [''BTC-USDT-SWAP'', ''ETH-USDT-SWAP'', ''BTC-USD-SWAP'', ''ETH-USD-SWAP''],
      side_dropdown_state = Disabled, qty_entry_state = Disabled,
      margin_mode_dropdown_state = Readonly, leverage_dropdown_state = Readonly \<rparr>"
  by (simp add: perps_close_def init_def on_type_change_def on_close_position_toggle_def
      trading_pairs_def)

lemma perps_eth_usd_eq:
  "perps_eth_usd = \<lparr> exchange_var = ''okx'', type_var = ''perps'', symbol_var = ''ETH-USD-SWAP'',
      side_var = [], qty_var = [], margin_mode_var = ''cross'', leverage_var = ''10'',
      close_position_var = False,
      symbol_values = [''BTC-USDT-SWAP'', ''ETH-USDT-SWAP'', ''BTC-USD-SWAP'', ''ETH-USD-SWAP''],
      side_dropdown_state = Readonly, qty_entry_state = Normal,
      margin_mode_dropdown_state = Readonly, leverage_dropdown_state = Readonly \<rparr>"
  by (simp add: perps_eth_usd_def init_def on_type_change_def trading_pairs_def)

lemma reachable_spot_order: "reachable spot_order"
  unfolding spot_order_def
  by (intro reachable_step reachable_init)
     (simp_all add: type_values_def side_values_def qty_presets_def init_def on_type_change_def
        Let_def)

lemma reachable_perps_close: "reachable perps_close"
  unfolding perps_close_def
  by (intro reachable_step reachable_init) (simp_all add: type_values_def)

lemma reachable_perps_eth_usd: "reachable perps_eth_usd"
  unfolding perps_eth_usd_def
  by (intro reachable_step reachable_init)
     (simp_all add: type_values_def init_def on_type_change_def trading_pairs_def)

lemma check_qty_50_pct: "check_qty ''50%'' = None"
  by (simp add: check_qty_def py_float_50 float_le_def)

lemma validate_spot_order: "validate_input spot_order = (True, [])"
  by (simp add: validate_input_def spot_order_eq check_qty_50_pct)

lemma construct_spot_order:
  "construct_payload spot_order =
     Inr [(''authToken'', JStr AUTH_TOKEN), (''exchange'', JStr ''okx''),
          (''symbol'', JStr ''BTC-USDT''), (''type'', JStr ''spot''),
          (''marginMode'', JStr ''cash''), (''side'', JStr ''buy''), (''qty'', JStr ''50%'')]"
  by (simp add: construct_payload_def spot_order_eq)

lemma send_spot_order:
  "send_webhook spot_order =
     Posted [(''authToken'', JStr AUTH_TOKEN), (''exchange'', JStr ''okx''),
             (''symbol'', JStr ''BTC-USDT''), (''type'', JStr ''spot''),
             (''marginMode'', JStr ''cash''), (''side'', JStr ''buy''), (''qty'', JStr ''50%'')]"
  by (simp add: send_webhook_def validate_spot_order construct_spot_order)

lemma validate_perps_close: "validate_input perps_close = (True, [])"
  by (simp add: validate_input_def perps_close_eq)

lemma construct_perps_close:
  "construct_payload perps_close =
     Inr [(''authToken'', JStr AUTH_TOKEN), (''exchange'', JStr ''okx''),
          (''symbol'', JStr ''BTC-USDT-SWAP''), (''type'', JStr ''perps''),
          (''marginMode'', JStr ''cross''), (''leverage'', JInt 10),
          (''closePosition'', JBool True)]"
  by (simp add: construct_payload_def perps_close_eq py_int_10)

lemma send_perps_close:
  "send_webhook perps_close =
     Posted [(''authToken'', JStr AUTH_TOKEN), (''exchange'', JStr ''okx''),
             (''symbol'', JStr ''BTC-USDT-SWAP''), (''type'', JStr ''perps''),
             (''marginMode'', JStr ''cross''), (''leverage'', JInt 10),
             (''closePosition'', JBool True)]"
  by (simp add: send_webhook_def validate_perps_close construct_perps_close)

subsection \<open>Validation and payload: general facts\<close>

lemma check_qty_messages:
  "check_qty q = Some msg \<Longrightarrow>
     msg \<in> set [''Invalid percentage format'', ''Percentage must be between 0 and 100'',
                ''Invalid quantity format'', ''Quantity must be greater than 0'']"
  by (auto simp: check_qty_def split: if_splits option.splits)

lemma validate_input_accepts: "fst (validate_input s) \<Longrightarrow> validate_input s = (True, [])"
  by (auto simp: validate_input_def split: if_splits option.splits)

lemma send_webhook_Posted:
  "send_webhook s = Posted p \<longleftrightarrow> validate_input s = (True, []) \<and> construct_payload s = Inr p"
proof (cases "validate_input s")
  case (Pair ok msg)
  then have "ok \<Longrightarrow> msg = []"
    using validate_input_accepts [of s] by simp
  with Pair show ?thesis
    by (cases ok; cases "construct_payload s") (auto simp: send_webhook_def)
qed

lemma construct_payload_succeeds:
  "type_var s = ''spot'' \<or> py_int (leverage_var s) \<noteq> None \<Longrightarrow> \<exists>p. construct_payload s = Inr p"
  by (auto simp: construct_payload_def Let_def)

lemma construct_payload_authToken:
  "construct_payload s = Inr p \<Longrightarrow> map_of p ''authToken'' = Some (JStr AUTH_TOKEN)"
  by (auto simp: construct_payload_def Let_def update_conv' split: if_splits option.splits)

lemma construct_payload_leverage:
  "construct_payload s = Inr p \<Longrightarrow>
     map_of p ''leverage'' =
       (if type_var s = ''spot'' then None else map_option JInt (py_int (leverage_var s)))"
  by (auto simp: construct_payload_def Let_def update_conv' split: if_splits option.splits)

lemma construct_payload_side_qty:
  "construct_payload s = Inr p \<Longrightarrow>
     map_of p ''side'' = (if close_position_var s then None else Some (JStr (side_var s))) \<and>
     map_of p ''qty'' = (if close_position_var s then None else Some (JStr (qty_var s))) \<and>
     map_of p ''closePosition'' = (if close_position_var s then Some (JBool True) else None)"
  by (auto simp: construct_payload_def Let_def update_conv' split: if_splits option.splits)

subsection \<open>Reachable states\<close>

lemma spot_locked_on_type_change: "spot_locked (on_type_change s)"
  by (simp add: spot_locked_def on_type_change_def Let_def)

lemma spot_locked_perform: "spot_locked s \<Longrightarrow> possible s a \<Longrightarrow> spot_locked (perform s a)"
proof (cases a)
  case (SelectType t)
  then show ?thesis by (simp add: spot_locked_on_type_change)
next
  case ClickClearForm
  then show ?thesis by (simp add: clear_form_def spot_locked_on_type_change)
qed (auto simp: spot_locked_def on_close_position_toggle_def Let_def)

lemma leverage_var_on_type_change: "leverage_var (on_type_change s) \<in> set leverage_values"
  by (simp add: on_type_change_def Let_def leverage_values_def)

lemma reachable_leverage: "reachable s \<Longrightarrow> leverage_var s \<in> set leverage_values"
proof (induction rule: reachable.induct)
  case reachable_init
  show ?case by (simp add: init_def leverage_values_def)
next
  case (reachable_step s a)
  then show ?case
    by (cases a)
       (simp_all add: leverage_var_on_type_change clear_form_def on_close_position_toggle_def
          Let_def)
qed

lemma reachable_leverage_integer: "reachable s \<Longrightarrow> py_int (leverage_var s) \<noteq> None"
proof -
  assume "reachable s"
  then have "leverage_var s \<in> set leverage_values" by (rule reachable_leverage)
  then have "py_int (leverage_var s) \<in> set (map py_int leverage_values)" by simp
  then show ?thesis unfolding py_int_leverage_values by auto
qed

lemma reachable_symbol:
  "reachable s \<Longrightarrow>
     (symbol_var s = [] \<or> symbol_var s \<in> set (symbol_values s)) \<and>
     (symbol_values s = [] \<or> trading_pairs (type_var s) = Some (symbol_values s))"
proof (induction rule: reachable.induct)
  case reachable_init
  show ?case by (simp add: init_def)
next
  case (reachable_step s a)
  then show ?case
    by (cases a)
       (auto simp: on_type_change_def clear_form_def on_close_position_toggle_def Let_def
          type_values_def trading_pairs_def)
qed

lemma reachable_symbol_eligible:
  "reachable s \<Longrightarrow> symbol_var s \<noteq> [] \<Longrightarrow>
     \<exists>ps. trading_pairs (type_var s) = Some ps \<and> symbol_var s \<in> set ps"
  using reachable_symbol [of s] by auto

section \<open>The claims\<close>

text \<open>
  C1 (as amended).  The claim says that the built document has no \<open>authToken\<close> field.
  The payload is built with that field first: every document that \<open>send_webhook\<close>
  hands to the request has the field \<open>authToken\<close>, holding the constant \<open>AUTH_TOKEN\<close>.
\<close>

theorem posted_payload_has_authToken:
  "send_webhook s = Posted p \<Longrightarrow> map_of p ''authToken'' = Some (JStr AUTH_TOKEN)"
  by (auto simp: send_webhook_Posted dest: construct_payload_authToken)

theorem posted_payload_has_authToken_witness:
  "send_webhook spot_order =
     Posted [(''authToken'', JStr AUTH_TOKEN), (''exchange'', JStr ''okx''),
             (''symbol'', JStr ''BTC-USDT''), (''type'', JStr ''spot''),
             (''marginMode'', JStr ''cash''), (''side'', JStr ''buy''), (''qty'', JStr ''50%'')] \<and>
   map_of [(''authToken'', JStr AUTH_TOKEN), (''exchange'', JStr ''okx''),
           (''symbol'', JStr ''BTC-USDT''), (''type'', JStr ''spot''),
           (''marginMode'', JStr ''cash''), (''side'', JStr ''buy''), (''qty'', JStr ''50%'')]
     ''authToken'' = Some (JStr AUTH_TOKEN)"
  using posted_payload_has_authToken [OF send_spot_order] send_spot_order by simp

text \<open>
  C1, counterexample.  The order "spot, BTC-USDT, buy, 50%" on okx is accepted by the
  validator, and the document built for it has the field \<open>authToken\<close>.
\<close>

theorem accepted_order_payload_with_authToken:
  "validate_input spot_order = (True, []) \<and>
   construct_payload spot_order =
     Inr [(''authToken'', JStr AUTH_TOKEN), (''exchange'', JStr ''okx''),
          (''symbol'', JStr ''BTC-USDT''), (''type'', JStr ''spot''),
          (''marginMode'', JStr ''cash''), (''side'', JStr ''buy''), (''qty'', JStr ''50%'')] \<and>
   map_of [(''authToken'', JStr AUTH_TOKEN), (''exchange'', JStr ''okx''),
           (''symbol'', JStr ''BTC-USDT''), (''type'', JStr ''spot''),
           (''marginMode'', JStr ''cash''), (''side'', JStr ''buy''), (''qty'', JStr ''50%'')]
     ''authToken'' \<noteq> None"
  by (simp add: validate_spot_order construct_spot_order)

text \<open>
  C2.  The claim says that every reachable state with trade type \<open>spot\<close> has margin mode
  \<open>cash\<close> and leverage \<open>1\<close>, the initial state included.  The state created by
  \<open>__init__\<close> has trade type \<open>spot\<close> with margin mode \<open>cross\<close> and leverage \<open>10\<close>, and
  both dropdowns are open for editing.  (The handler \<open>on_type_change\<close> does establish the
  property, and every action keeps it: lemmas \<open>spot_locked_on_type_change\<close> and
  \<open>spot_locked_perform\<close>.)
\<close>

theorem init_is_spot_with_cross_margin:
  "reachable init \<and> type_var init = ''spot'' \<and> margin_mode_var init = ''cross'' \<and>
   leverage_var init = ''10'' \<and> margin_mode_dropdown_state init = Readonly \<and>
   leverage_dropdown_state init = Readonly"
  by (simp add: reachable_init) (simp add: init_def)

text \<open>
  C3 (as amended).  The claim says that a trade-type change keeps a symbol that is
  eligible for the new type.  The handler makes no such test: whenever the new type has
  trading pairs, the symbol becomes the first of them; it is left as it is only when the
  type has none.
\<close>

theorem type_change_selects_first_symbol:
  "(\<forall>y ys. trading_pairs t = Some (y # ys) \<longrightarrow> symbol_var (perform s (SelectType t)) = y) \<and>
   (trading_pairs t = None \<or> trading_pairs t = Some [] \<longrightarrow>
      symbol_var (perform s (SelectType t)) = symbol_var s)"
  by (auto simp: on_type_change_def Let_def)

theorem type_change_selects_first_symbol_witness:
  "trading_pairs ''invperps'' = Some (''BTC-USD-SWAP'' # [''ETH-USD-SWAP'']) \<and>
   symbol_var (perform perps_eth_usd (SelectType ''invperps'')) = ''BTC-USD-SWAP'' \<and>
   trading_pairs ''futures'' = None \<and>
   symbol_var (perform perps_eth_usd (SelectType ''futures'')) = symbol_var perps_eth_usd"
proof -
  have a: "trading_pairs ''invperps'' = Some (''BTC-USD-SWAP'' # [''ETH-USD-SWAP''])"
    by (simp add: trading_pairs_def)
  have b: "trading_pairs ''futures'' = None"
    by (simp add: trading_pairs_def)
  show ?thesis
    using type_change_selects_first_symbol [of "''invperps''" perps_eth_usd]
      type_change_selects_first_symbol [of "''futures''" perps_eth_usd] a b
    by simp
qed

text \<open>
  C3, counterexample.  With trade type \<open>perps\<close> and symbol \<open>ETH-USD-SWAP\<close>, a change to
  \<open>invperps\<close>, for which \<open>ETH-USD-SWAP\<close> is eligible, replaces the symbol by
  \<open>BTC-USD-SWAP\<close>.
\<close>

theorem eligible_symbol_replaced_on_type_change:
  "type_var perps_eth_usd = ''perps'' \<and> symbol_var perps_eth_usd = ''ETH-USD-SWAP'' \<and>
   trading_pairs ''invperps'' = Some [''BTC-USD-SWAP'', ''ETH-USD-SWAP''] \<and>
   ''ETH-USD-SWAP'' \<in> set [''BTC-USD-SWAP'', ''ETH-USD-SWAP''] \<and>
   symbol_var (perform perps_eth_usd (SelectType ''invperps'')) = ''BTC-USD-SWAP''"
  by (simp add: perps_eth_usd_eq on_type_change_def trading_pairs_def)

text \<open>
  C4 (as amended).  The claim says that a symbol outside the eligible set of the trade
  type is rejected.  \<open>validate_input\<close> only tests that a symbol is set: an unset symbol is
  rejected with "Please select a trading pair" (exchange and trade type being set), and
  the result for a set symbol is the same whichever text it is.
\<close>

theorem validate_input_symbol_presence_only:
  "(exchange_var s \<noteq> [] \<and> type_var s \<noteq> [] \<and> symbol_var s = [] \<longrightarrow>
      validate_input s = (False, ''Please select a trading pair'')) \<and>
   (symbol_var s \<noteq> [] \<and> y \<noteq> [] \<longrightarrow>
      validate_input (s\<lparr>symbol_var := y\<rparr>) = validate_input s)"
  by (simp add: validate_input_def)

theorem validate_input_symbol_presence_only_witness:
  "validate_input (spot_order\<lparr>symbol_var := []\<rparr>) = (False, ''Please select a trading pair'') \<and>
   validate_input (spot_order\<lparr>symbol_var := ''DOGE-USDT''\<rparr>) = (True, [])"
  using validate_input_symbol_presence_only [of "spot_order\<lparr>symbol_var := []\<rparr>" "[]"]
    validate_input_symbol_presence_only [of spot_order "''DOGE-USDT''"] validate_spot_order
  by (simp add: spot_order_eq)

text \<open>
  C4, counterexample.  With trade type \<open>spot\<close>, whose pairs are \<open>BTC-USDT\<close> and
  \<open>ETH-USDT\<close>, the symbol \<open>DOGE-USDT\<close> is accepted.
\<close>

theorem ineligible_symbol_accepted:
  "trading_pairs (type_var doge_order) = Some [''BTC-USDT'', ''ETH-USDT''] \<and>
   symbol_var doge_order = ''DOGE-USDT'' \<and>
   ''DOGE-USDT'' \<notin> set [''BTC-USDT'', ''ETH-USDT''] \<and>
   validate_input doge_order = (True, [])"
  by (simp add: doge_order_def spot_order_eq trading_pairs_def validate_input_def
      check_qty_50_pct)

text \<open>
  C5.  \<open>validate_input\<close> returns at the first check that fails, in the order exchange,
  trade type, symbol and then, only when the position is not being closed, side, quantity
  present, quantity format.  So an unset exchange gives "Please select an exchange"
  whatever the other fields hold.  The result is one message of a fixed list, empty
  exactly when the input is accepted.
\<close>

theorem validate_input_first_failure:
  "(exchange_var s = [] \<longrightarrow> validate_input s = (False, ''Please select an exchange'')) \<and>
   (exchange_var s \<noteq> [] \<and> type_var s = [] \<longrightarrow>
      validate_input s = (False, ''Please select a trade type'')) \<and>
   (exchange_var s \<noteq> [] \<and> type_var s \<noteq> [] \<and> symbol_var s = [] \<longrightarrow>
      validate_input s = (False, ''Please select a trading pair'')) \<and>
   (exchange_var s \<noteq> [] \<and> type_var s \<noteq> [] \<and> symbol_var s \<noteq> [] \<and> close_position_var s \<longrightarrow>
      validate_input s = (True, [])) \<and>
   (exchange_var s \<noteq> [] \<and> type_var s \<noteq> [] \<and> symbol_var s \<noteq> [] \<and> \<not> close_position_var s \<and>
    side_var s = [] \<longrightarrow>
      validate_input s = (False, ''Please select a side'')) \<and>
   (exchange_var s \<noteq> [] \<and> type_var s \<noteq> [] \<and> symbol_var s \<noteq> [] \<and> \<not> close_position_var s \<and>
    side_var s \<noteq> [] \<and> qty_var s = [] \<longrightarrow>
      validate_input s = (False, ''Please enter a quantity'')) \<and>
   (exchange_var s \<noteq> [] \<and> type_var s \<noteq> [] \<and> symbol_var s \<noteq> [] \<and> \<not> close_position_var s \<and>
    side_var s \<noteq> [] \<and> qty_var s \<noteq> [] \<longrightarrow>
      validate_input s =
        (case check_qty (qty_var s) of Some msg \<Rightarrow> (False, msg) | None \<Rightarrow> (True, []))) \<and>
   (fst (validate_input s) \<longleftrightarrow> snd (validate_input s) = []) \<and>
   snd (validate_input s) \<in>
     set [[], ''Please select an exchange'', ''Please select a trade type'',
          ''Please select a trading pair'', ''Please select a side'',
          ''Please enter a quantity'', ''Invalid percentage format'',
          ''Percentage must be between 0 and 100'', ''Invalid quantity format'',
          ''Quantity must be greater than 0'']"
proof -
  have order: "validate_input s =
      (if exchange_var s = [] then (False, ''Please select an exchange'')
       else if type_var s = [] then (False, ''Please select a trade type'')
       else if symbol_var s = [] then (False, ''Please select a trading pair'')
       else if close_position_var s then (True, [])
       else if side_var s = [] then (False, ''Please select a side'')
       else if qty_var s = [] then (False, ''Please enter a quantity'')
       else (case check_qty (qty_var s) of Some msg \<Rightarrow> (False, msg) | None \<Rightarrow> (True, [])))"
    by (simp add: validate_input_def)
  have msgs: "check_qty (qty_var s) = Some msg \<Longrightarrow>
      msg \<in> set [''Invalid percentage format'', ''Percentage must be between 0 and 100'',
                 ''Invalid quantity format'', ''Quantity must be greater than 0'']" for msg
    by (rule check_qty_messages)
  have single: "fst (validate_input s) \<longleftrightarrow> snd (validate_input s) = []"
    using msgs by (auto simp: order split: option.splits)
  have listed: "snd (validate_input s) \<in>
     set [[], ''Please select an exchange'', ''Please select a trade type'',
          ''Please select a trading pair'', ''Please select a side'',
          ''Please enter a quantity'', ''Invalid percentage format'',
          ''Percentage must be between 0 and 100'', ''Invalid quantity format'',
          ''Quantity must be greater than 0'']"
  proof (cases "check_qty (qty_var s)")
    case None
    then show ?thesis by (simp add: order)
  next
    case (Some msg)
    with msgs [of msg] show ?thesis by (auto simp: order)
  qed
  from single listed show ?thesis
    by (simp add: order)
qed

theorem validate_input_first_failure_witness:
  "validate_input (spot_order\<lparr>exchange_var := [], type_var := [], symbol_var := ''DOGE'',
      qty_var := ''abc''\<rparr>) = (False, ''Please select an exchange'') \<and>
   validate_input (spot_order\<lparr>type_var := [], symbol_var := []\<rparr>) =
      (False, ''Please select a trade type'') \<and>
   validate_input (spot_order\<lparr>symbol_var := [], side_var := []\<rparr>) =
      (False, ''Please select a trading pair'') \<and>
   validate_input (spot_order\<lparr>close_position_var := True, side_var := [], qty_var := []\<rparr>) =
      (True, []) \<and>
   validate_input (spot_order\<lparr>side_var := [], qty_var := []\<rparr>) =
      (False, ''Please select a side'') \<and>
   validate_input (spot_order\<lparr>qty_var := []\<rparr>) = (False, ''Please enter a quantity'') \<and>
   validate_input spot_order = (True, [])"
  using
    validate_input_first_failure [of "spot_order\<lparr>exchange_var := [], type_var := [],
      symbol_var := ''DOGE'', qty_var := ''abc''\<rparr>"]
    validate_input_first_failure [of "spot_order\<lparr>type_var := [], symbol_var := []\<rparr>"]
    validate_input_first_failure [of "spot_order\<lparr>symbol_var := [], side_var := []\<rparr>"]
    validate_input_first_failure [of "spot_order\<lparr>close_position_var := True, side_var := [],
      qty_var := []\<rparr>"]
    validate_input_first_failure [of "spot_order\<lparr>side_var := [], qty_var := []\<rparr>"]
    validate_input_first_failure [of "spot_order\<lparr>qty_var := []\<rparr>"]
    validate_input_first_failure [of spot_order]
  by (simp add: spot_order_eq check_qty_50_pct)

text \<open>
  C6.  The quantity check, reached with exchange, trade type, symbol, side and quantity
  all set and the position not being closed.  A text ending in \<open>%\<close>: when the text before
  the sign reads as a number \<open>v\<close>, the input is accepted if \<open>0 < v \<le> 100\<close> and rejected
  with "Percentage must be between 0 and 100" otherwise; when it does not read as a
  number, the input is rejected with "Invalid percentage format".  Any other text: when it
  reads as a number \<open>v\<close>, the input is accepted if \<open>0 < v\<close> and rejected with "Quantity
  must be greater than 0" if \<open>v \<le> 0\<close>; when it does not, the input is rejected with
  "Invalid quantity format".
\<close>

theorem validate_input_quantity:
  assumes "exchange_var s \<noteq> []" and "type_var s \<noteq> []" and "symbol_var s \<noteq> []"
    and "\<not> close_position_var s" and "side_var s \<noteq> []" and "qty_var s \<noteq> []"
  shows
    "(last (qty_var s) = CHR ''%'' \<longrightarrow>
        (\<forall>v. py_float (butlast (qty_var s)) = Some v \<longrightarrow>
           (float_less (Finite 0) v \<and> float_le v (Finite 100) \<longrightarrow>
              validate_input s = (True, [])) \<and>
           (\<not> (float_less (Finite 0) v \<and> float_le v (Finite 100)) \<longrightarrow>
              validate_input s = (False, ''Percentage must be between 0 and 100''))) \<and>
        (py_float (butlast (qty_var s)) = None \<longrightarrow>
           validate_input s = (False, ''Invalid percentage format''))) \<and>
     (last (qty_var s) \<noteq> CHR ''%'' \<longrightarrow>
        (\<forall>v. py_float (qty_var s) = Some v \<longrightarrow>
           (float_less (Finite 0) v \<longrightarrow> validate_input s = (True, [])) \<and>
           (float_le v (Finite 0) \<longrightarrow>
              validate_input s = (False, ''Quantity must be greater than 0''))) \<and>
        (py_float (qty_var s) = None \<longrightarrow>
           validate_input s = (False, ''Invalid quantity format'')))"
proof -
  have v: "validate_input s =
      (case check_qty (qty_var s) of Some msg \<Rightarrow> (False, msg) | None \<Rightarrow> (True, []))"
    using assms by (simp add: validate_input_def)
  have pos: "float_less (Finite 0) x \<Longrightarrow> \<not> float_le x (Finite 0)" for x
    by (cases x) (auto simp: float_le_def)
  show ?thesis
    using assms(6) pos by (auto simp: v check_qty_def)
qed

theorem validate_input_quantity_witness:
  "validate_input (spot_order\<lparr>qty_var := ''50%''\<rparr>) = (True, []) \<and>
   validate_input (spot_order\<lparr>qty_var := ''150%''\<rparr>) =
     (False, ''Percentage must be between 0 and 100'') \<and>
   validate_input (spot_order\<lparr>qty_var := ''abc%''\<rparr>) = (False, ''Invalid percentage format'') \<and>
   validate_input (spot_order\<lparr>qty_var := ''1.5''\<rparr>) = (True, []) \<and>
   validate_input (spot_order\<lparr>qty_var := ''-1''\<rparr>) =
     (False, ''Quantity must be greater than 0'') \<and>
   validate_input (spot_order\<lparr>qty_var := ''abc''\<rparr>) = (False, ''Invalid quantity format'')"
  using
    validate_input_quantity [of "spot_order\<lparr>qty_var := ''50%''\<rparr>"]
    validate_input_quantity [of "spot_order\<lparr>qty_var := ''150%''\<rparr>"]
    validate_input_quantity [of "spot_order\<lparr>qty_var := ''abc%''\<rparr>"]
    validate_input_quantity [of "spot_order\<lparr>qty_var := ''1.5''\<rparr>"]
    validate_input_quantity [of "spot_order\<lparr>qty_var := ''-1''\<rparr>"]
    validate_input_quantity [of "spot_order\<lparr>qty_var := ''abc''\<rparr>"]
  by (simp add: spot_order_eq py_float_50 py_float_150 py_float_abc py_float_1_5
      py_float_minus_1 float_le_def)

text \<open>
  C7.  When the position is being closed and exchange, trade type and symbol are set,
  \<open>validate_input\<close> accepts, whatever side and quantity hold (empty included).  The
  document then built (the leverage text being an integer, which is only read for a trade
  type other than \<open>spot\<close>) has \<open>closePosition\<close> true and neither \<open>side\<close> nor \<open>qty\<close>.
\<close>

theorem close_position_skips_side_and_qty:
  assumes "close_position_var s" and "exchange_var s \<noteq> []" and "type_var s \<noteq> []"
    and "symbol_var s \<noteq> []"
  shows "validate_input s = (True, []) \<and>
         (type_var s = ''spot'' \<or> py_int (leverage_var s) \<noteq> None \<longrightarrow>
            (\<exists>p. send_webhook s = Posted p \<and> map_of p ''closePosition'' = Some (JBool True) \<and>
                 map_of p ''side'' = None \<and> map_of p ''qty'' = None))"
proof -
  have v: "validate_input s = (True, [])"
    using assms by (simp add: validate_input_def)
  have "\<exists>p. send_webhook s = Posted p \<and> map_of p ''closePosition'' = Some (JBool True) \<and>
            map_of p ''side'' = None \<and> map_of p ''qty'' = None"
    if "type_var s = ''spot'' \<or> py_int (leverage_var s) \<noteq> None"
  proof -
    from that obtain p where p: "construct_payload s = Inr p"
      using construct_payload_succeeds by blast
    then have "send_webhook s = Posted p"
      by (simp add: send_webhook_Posted v)
    with construct_payload_side_qty [OF p] assms(1) show ?thesis by simp
  qed
  with v show ?thesis by blast
qed

theorem close_position_skips_side_and_qty_witness:
  "side_var perps_close = [] \<and> qty_var perps_close = [] \<and>
   validate_input perps_close = (True, []) \<and>
   send_webhook perps_close =
     Posted [(''authToken'', JStr AUTH_TOKEN), (''exchange'', JStr ''okx''),
             (''symbol'', JStr ''BTC-USDT-SWAP''), (''type'', JStr ''perps''),
             (''marginMode'', JStr ''cross''), (''leverage'', JInt 10),
             (''closePosition'', JBool True)]"
  using close_position_skips_side_and_qty [of perps_close] send_perps_close
  by (simp add: perps_close_eq)

text \<open>
  C8.  For an accepted state (the leverage text being an integer when the trade type is
  not \<open>spot\<close>) a document is built and posted; it has a \<open>leverage\<close> field exactly when the
  trade type is not \<open>spot\<close>, holding the integer read from the leverage text; and when the
  position is not being closed it has \<open>side\<close> and \<open>qty\<close>, the latter the quantity text as
  it was entered.
\<close>

theorem payload_leverage_side_qty:
  assumes "validate_input s = (True, [])"
    and "type_var s = ''spot'' \<or> py_int (leverage_var s) \<noteq> None"
  shows "\<exists>p. send_webhook s = Posted p \<and>
           (map_of p ''leverage'' \<noteq> None \<longleftrightarrow> type_var s \<noteq> ''spot'') \<and>
           (type_var s \<noteq> ''spot'' \<longrightarrow>
              (\<exists>n. py_int (leverage_var s) = Some n \<and> map_of p ''leverage'' = Some (JInt n))) \<and>
           (\<not> close_position_var s \<longrightarrow>
              map_of p ''side'' = Some (JStr (side_var s)) \<and>
              map_of p ''qty'' = Some (JStr (qty_var s)))"
proof -
  from assms(2) obtain p where p: "construct_payload s = Inr p"
    using construct_payload_succeeds by blast
  then have "send_webhook s = Posted p"
    by (simp add: send_webhook_Posted assms(1))
  moreover have "py_int (leverage_var s) \<noteq> None" if "type_var s \<noteq> ''spot''"
    using that assms(2) by simp
  ultimately show ?thesis
    using construct_payload_leverage [OF p] construct_payload_side_qty [OF p] by auto
qed

theorem payload_leverage_side_qty_witness:
  "send_webhook spot_order =
     Posted [(''authToken'', JStr AUTH_TOKEN), (''exchange'', JStr ''okx''),
             (''symbol'', JStr ''BTC-USDT''), (''type'', JStr ''spot''),
             (''marginMode'', JStr ''cash''), (''side'', JStr ''buy''), (''qty'', JStr ''50%'')] \<and>
   send_webhook perps_close =
     Posted [(''authToken'', JStr AUTH_TOKEN), (''exchange'', JStr ''okx''),
             (''symbol'', JStr ''BTC-USDT-SWAP''), (''type'', JStr ''perps''),
             (''marginMode'', JStr ''cross''), (''leverage'', JInt 10),
             (''closePosition'', JBool True)] \<and>
   type_var spot_order = ''spot'' \<and> qty_var spot_order = ''50%'' \<and>
   type_var perps_close = ''perps'' \<and> py_int (leverage_var perps_close) = Some 10"
proof -
  have "type_var spot_order = ''spot'' \<or> py_int (leverage_var spot_order) \<noteq> None"
    by (simp add: spot_order_eq)
  note a = payload_leverage_side_qty [OF validate_spot_order this]
  have "type_var perps_close = ''spot'' \<or> py_int (leverage_var perps_close) \<noteq> None"
    by (simp add: perps_close_eq py_int_10)
  note b = payload_leverage_side_qty [OF validate_perps_close this]
  have c: "type_var spot_order = ''spot'' \<and> qty_var spot_order = ''50%'' \<and>
      type_var perps_close = ''perps'' \<and> py_int (leverage_var perps_close) = Some 10"
    by (simp add: spot_order_eq perps_close_eq py_int_10)
  from a b c send_spot_order send_perps_close show ?thesis
    by simp
qed

text \<open>
  C9.  Ticking and unticking "Close Position" leaves the side and the quantity as they
  were: the handler \<open>on_close_position_toggle\<close> changes no variable (it sets the state of
  the side and quantity widgets), so after one toggle and after two the stored side and
  quantity are unchanged, and after two the flag is back.
\<close>

theorem close_position_toggle_keeps_side_and_qty:
  "side_var (perform s ToggleClosePosition) = side_var s \<and>
   qty_var (perform s ToggleClosePosition) = qty_var s \<and>
   side_var (perform (perform s ToggleClosePosition) ToggleClosePosition) = side_var s \<and>
   qty_var (perform (perform s ToggleClosePosition) ToggleClosePosition) = qty_var s \<and>
   close_position_var (perform (perform s ToggleClosePosition) ToggleClosePosition) =
     close_position_var s \<and>
   exchange_var (on_close_position_toggle s) = exchange_var s \<and>
   type_var (on_close_position_toggle s) = type_var s \<and>
   symbol_var (on_close_position_toggle s) = symbol_var s \<and>
   side_var (on_close_position_toggle s) = side_var s \<and>
   qty_var (on_close_position_toggle s) = qty_var s \<and>
   margin_mode_var (on_close_position_toggle s) = margin_mode_var s \<and>
   leverage_var (on_close_position_toggle s) = leverage_var s \<and>
   close_position_var (on_close_position_toggle s) = close_position_var s"
  by (simp add: on_close_position_toggle_def Let_def)

theorem close_position_toggle_keeps_side_and_qty_witness:
  "close_position_var spot_order = False \<and>
   close_position_var (perform spot_order ToggleClosePosition) = True \<and>
   side_var (perform (perform spot_order ToggleClosePosition) ToggleClosePosition) = ''buy'' \<and>
   qty_var (perform (perform spot_order ToggleClosePosition) ToggleClosePosition) = ''50%'' \<and>
   close_position_var (perform (perform spot_order ToggleClosePosition) ToggleClosePosition) =
     False"
  using close_position_toggle_keeps_side_and_qty [of spot_order]
  by (simp add: spot_order_eq on_close_position_toggle_def)

text \<open>
  C10.  The validator accepts quantities that are not positive finite numbers.  With
  exchange, trade type, symbol and side set and the position not being closed, the
  quantity texts \<open>nan\<close> and \<open>inf\<close> are accepted: each reads as a float, the not-a-number
  is not \<open>\<le> 0\<close> (nor \<open>> 0\<close>), and the text is sent as \<open>qty\<close> as it is.
\<close>

theorem non_finite_quantity_accepted:
  "close_position_var nan_order = False \<and> qty_var nan_order = ''nan'' \<and>
   py_float ''nan'' = Some NaN \<and> \<not> float_le NaN (Finite 0) \<and> \<not> float_less (Finite 0) NaN \<and>
   validate_input nan_order = (True, []) \<and>
   send_webhook nan_order =
     Posted [(''authToken'', JStr AUTH_TOKEN), (''exchange'', JStr ''okx''),
             (''symbol'', JStr ''BTC-USDT''), (''type'', JStr ''spot''),
             (''marginMode'', JStr ''cash''), (''side'', JStr ''buy''), (''qty'', JStr ''nan'')] \<and>
   close_position_var inf_order = False \<and> qty_var inf_order = ''inf'' \<and>
   py_float ''inf'' = Some PosInf \<and>
   validate_input inf_order = (True, []) \<and>
   send_webhook inf_order =
     Posted [(''authToken'', JStr AUTH_TOKEN), (''exchange'', JStr ''okx''),
             (''symbol'', JStr ''BTC-USDT''), (''type'', JStr ''spot''),
             (''marginMode'', JStr ''cash''), (''side'', JStr ''buy''), (''qty'', JStr ''inf'')]"
proof -
  have n: "validate_input nan_order = (True, [])"
    by (simp add: nan_order_def spot_order_eq validate_input_def check_qty_def py_float_nan
        float_le_def)
  have i: "validate_input inf_order = (True, [])"
    by (simp add: inf_order_def spot_order_eq validate_input_def check_qty_def py_float_inf
        float_le_def)
  have cn: "construct_payload nan_order =
     Inr [(''authToken'', JStr AUTH_TOKEN), (''exchange'', JStr ''okx''),
          (''symbol'', JStr ''BTC-USDT''), (''type'', JStr ''spot''),
          (''marginMode'', JStr ''cash''), (''side'', JStr ''buy''), (''qty'', JStr ''nan'')]"
    by (simp add: nan_order_def spot_order_eq construct_payload_def)
  have ci: "construct_payload inf_order =
     Inr [(''authToken'', JStr AUTH_TOKEN), (''exchange'', JStr ''okx''),
          (''symbol'', JStr ''BTC-USDT''), (''type'', JStr ''spot''),
          (''marginMode'', JStr ''cash''), (''side'', JStr ''buy''), (''qty'', JStr ''inf'')]"
    by (simp add: inf_order_def spot_order_eq construct_payload_def)
  have q: "close_position_var nan_order = False \<and> qty_var nan_order = ''nan'' \<and>
      close_position_var inf_order = False \<and> qty_var inf_order = ''inf''"
    by (simp add: nan_order_def inf_order_def spot_order_eq)
  show ?thesis
    using q by (simp add: send_webhook_Posted n i cn ci py_float_nan py_float_inf float_le_def)
qed

theorem non_finite_quantity_accepted_witness:
  "reachable nan_order \<and> reachable inf_order \<and>
   validate_input nan_order = (True, []) \<and> validate_input inf_order = (True, [])"
proof -
  have p: "possible spot_order (TypeQty q)" for q
    by (simp add: spot_order_eq)
  have "reachable nan_order" and "reachable inf_order"
    unfolding nan_order_def inf_order_def
    by (rule reachable_step [OF reachable_spot_order p])+
  with non_finite_quantity_accepted show ?thesis by simp
qed

end
